theory Spec2Isabelle
  imports Complex_Main
begin

section \<open>Python values and numpy arrays\<close>

text \<open>
  The exceptions the modelled code can raise.  \<open>SourceError\<close> stands for whatever the
  row source \<open>get_raw_data\<close> or a user function raises.
\<close>

datatype error = NameError | TypeError | ValueError | IndexError | AttributeError
  | SourceError string

text \<open>
  A Python float is kept abstract: all that \<open>dataset.py\<close> asks of one is whether it is
  finite.  The elements of an array are Python objects: the rows of the data table mix two
  string identifiers with feature values, and a feature may be a float, an integer, a
  string or \<open>None\<close>.
\<close>

datatype pyfloat = Finite real | PosInf | NegInf | NaN

datatype pyval = PyFloat pyfloat | PyInt int | PyStr string | PyNone

fun isinstance_float :: "pyval \<Rightarrow> bool" where
  "isinstance_float (PyFloat f) = True"
| "isinstance_float (PyInt i) = False"
| "isinstance_float (PyStr s) = False"
| "isinstance_float PyNone = False"

text \<open>
  \<open>np.isfinite\<close> accepts a float and an integer that fits a 64-bit machine integer,
  signed or unsigned; it raises \<open>TypeError\<close> on a larger integer, which numpy keeps as
  an object, on a string and on \<open>None\<close>.
\<close>

fun np_isfinite :: "pyval \<Rightarrow> error + bool" where
  "np_isfinite (PyFloat (Finite x)) = Inr True"
| "np_isfinite (PyFloat PosInf) = Inr False"
| "np_isfinite (PyFloat NegInf) = Inr False"
| "np_isfinite (PyFloat NaN) = Inr False"
| "np_isfinite (PyInt i) =
     (if i < - (2 ^ 63) then Inl TypeError
      else if 2 ^ 64 \<le> i then Inl TypeError
      else Inr True)"
| "np_isfinite (PyStr s) = Inl TypeError"
| "np_isfinite PyNone = Inl TypeError"

text \<open>
  The element types of the arrays.  Joining two arrays gives an array of their common
  type: \<open>object\<close> absorbs every type, a string type absorbs the numbers, and
  \<open>float64\<close> absorbs \<open>int64\<close>.
\<close>

datatype np_dtype = Float64 | Int64 | Unicode | Object

fun result_type :: "np_dtype \<Rightarrow> np_dtype \<Rightarrow> np_dtype" where
  "result_type Object b = Object"
| "result_type Unicode Object = Object"
| "result_type Unicode b = Unicode"
| "result_type Float64 Object = Object"
| "result_type Float64 Unicode = Unicode"
| "result_type Float64 b = Float64"
| "result_type Int64 b = b"

text \<open>
  How numpy converts one element from a type to another (the text of a float, the float
  of an integer) is not part of \<open>dataset.py\<close>: the conversion is a parameter, applied
  to the elements of an array whose type changes and to no other.
\<close>

type_synonym np_convert = "np_dtype \<Rightarrow> np_dtype \<Rightarrow> pyval \<Rightarrow> pyval"

definition astype_items :: "np_convert \<Rightarrow> np_dtype \<Rightarrow> np_dtype \<Rightarrow> pyval list \<Rightarrow> pyval list" where
  "astype_items convert src dst xs = (if src = dst then xs else map (convert src dst) xs)"

text \<open>
  A two-dimensional array of shape \<open>(length rows, ncols)\<close>.  The column count is kept
  beside the rows because \<open>np.vstack\<close> compares it, also for an array with no rows.
\<close>

record table =
  dtype :: np_dtype
  ncols :: nat
  rows :: "pyval list list"

text \<open>A one-dimensional array.\<close>

record vector =
  vdtype :: np_dtype
  items :: "pyval list"

text \<open>
  \<open>np.vstack((a, b))\<close>: the column counts must agree; both arrays are converted to
  their common type and the rows of \<open>b\<close> follow the rows of \<open>a\<close>.
\<close>

definition np_vstack :: "np_convert \<Rightarrow> table \<Rightarrow> table \<Rightarrow> error + table" where
  "np_vstack convert a b =
     (if ncols a = ncols b
      then Inr \<lparr>dtype = result_type (dtype a) (dtype b),
                ncols = ncols a,
                rows = map (astype_items convert (dtype a) (result_type (dtype a) (dtype b))) (rows a) @
                       map (astype_items convert (dtype b) (result_type (dtype a) (dtype b))) (rows b)\<rparr>
      else Inl ValueError)"

text \<open>
  \<open>np.append(a, v)\<close> without an axis, on one-dimensional arrays: both are converted to
  their common type and concatenated.
\<close>

definition np_append :: "np_convert \<Rightarrow> vector \<Rightarrow> vector \<Rightarrow> vector" where
  "np_append convert a v =
     \<lparr>vdtype = result_type (vdtype a) (vdtype v),
      items = astype_items convert (vdtype a) (result_type (vdtype a) (vdtype v)) (items a) @
              astype_items convert (vdtype v) (result_type (vdtype a) (vdtype v)) (items v)\<rparr>"

text \<open>\<open>arr[i]\<close> for an index \<open>i \<ge> 0\<close>.\<close>

definition getitem :: "'a list \<Rightarrow> nat \<Rightarrow> error + 'a" where
  "getitem arr i = (if i < length arr then Inr (arr ! i) else Inl IndexError)"

text \<open>
  \<open>np.delete(arr, obj, 0)\<close> for a list \<open>obj\<close> of non-negative indices: one call that
  keeps, in order, every entry whose index is not listed.
\<close>

definition np_delete :: "'a list \<Rightarrow> nat list \<Rightarrow> error + 'a list" where
  "np_delete arr obj =
     (if list_all (\<lambda>i. i < length arr) obj
      then Inr (map ((!) arr) (filter (\<lambda>i. i \<notin> set obj) [0..<length arr]))
      else Inl IndexError)"

section \<open>class Dataset\<close>

record dataset =
  data :: "table option"
  col_names :: "string list option"

text \<open>
  A callback runs for its side effects.  It is a function of the batch and of the state
  it can reach, which is the object under construction and whatever extends it; it may
  raise.
\<close>

type_synonym 'a callback = "table \<Rightarrow> 'a \<Rightarrow> error + 'a"

type_synonym row_source = "string \<Rightarrow> error + (table \<times> string list)"

text \<open>The body of \<open>for ticker in symbols\<close>.\<close>

fun for_ticker ::
  "np_convert \<Rightarrow> row_source \<Rightarrow> ('a dataset_scheme) callback option \<Rightarrow> string list \<Rightarrow>
   'a dataset_scheme \<Rightarrow> error + 'a dataset_scheme" where
  "for_ticker convert get_raw_data data_callback [] self = Inr self"
| "for_ticker convert get_raw_data data_callback (ticker # symbols) self =
     (case get_raw_data ticker of
        Inl e \<Rightarrow> Inl e
      | Inr (batch, names) \<Rightarrow>
          (case (case data_callback of
                   None \<Rightarrow> Inr self
                 | Some f \<Rightarrow> f batch self) of
             Inl e \<Rightarrow> Inl e
           | Inr self1 \<Rightarrow>
               (case data self1 of
                  None \<Rightarrow>
                    for_ticker convert get_raw_data data_callback symbols
                      (self1\<lparr>data := Some batch, col_names := Some names\<rparr>)
                | Some old \<Rightarrow>
                    (case np_vstack convert old batch of
                       Inl e \<Rightarrow> Inl e
                     | Inr new \<Rightarrow>
                         for_ticker convert get_raw_data data_callback symbols
                           (self1\<lparr>data := Some new\<rparr>)))))"

text \<open>
  \<open>_initialize_dataset\<close>.  The branches for \<open>sector\<close>, \<open>index\<close> and \<open>size\<close> are
  \<open>pass\<close>: the three parameters are taken and ignored.
\<close>

definition initialize_dataset ::
  "np_convert \<Rightarrow> row_source \<Rightarrow> string list option \<Rightarrow> string list option \<Rightarrow>
   string list option \<Rightarrow> nat option \<Rightarrow> ('a dataset_scheme) callback option \<Rightarrow>
   'a dataset_scheme \<Rightarrow> error + 'a dataset_scheme" where
  "initialize_dataset convert get_raw_data symbols sector index sz data_callback self =
     (case symbols of
        None \<Rightarrow> Inr self
      | Some tickers \<Rightarrow> for_ticker convert get_raw_data data_callback tickers self)"

text \<open>
  Name resolution in the body of \<open>Dataset.__init__\<close>: the parameters, then the module's
  globals.  A name bound in neither raises \<open>NameError\<close> when it is evaluated.
\<close>

datatype 'a binding =
    BoundSelf
  | BoundSymbols "string list option"
  | BoundList "string list option"
  | BoundSize "nat option"
  | BoundCallback "'a callback option"
  | BoundGlobal

definition init_scope ::
  "string list option \<Rightarrow> string list option \<Rightarrow> string list option \<Rightarrow> nat option \<Rightarrow>
   'a callback option \<Rightarrow> (string \<times> 'a binding) list" where
  "init_scope symbols sector index sz data_callback =
     [(''self'', BoundSelf),
      (''symbols'', BoundSymbols symbols),
      (''sector'', BoundList sector),
      (''index'', BoundList index),
      (''size'', BoundSize sz),
      (''data_callback'', BoundCallback data_callback),
      (''np'', BoundGlobal),
      (''IntradayQuotes'', BoundGlobal),
      (''get_raw_data'', BoundGlobal),
      (''Dataset'', BoundGlobal),
      (''MLDataset'', BoundGlobal)]"

definition load_name :: "(string \<times> 'a binding) list \<Rightarrow> string \<Rightarrow> error + 'a binding" where
  "load_name scope name =
     (case map_of scope name of None \<Rightarrow> Inl NameError | Some v \<Rightarrow> Inr v)"

text \<open>
  \<open>Dataset.__init__\<close>: the two fields are cleared, then the arguments of the call of
  \<open>_initialize_dataset\<close> are evaluated; the fifth is the name \<open>stock_callback\<close>.
\<close>

definition Dataset_init ::
  "np_convert \<Rightarrow> row_source \<Rightarrow> string list option \<Rightarrow> string list option \<Rightarrow>
   string list option \<Rightarrow> nat option \<Rightarrow> ('a dataset_scheme) callback option \<Rightarrow>
   'a dataset_scheme \<Rightarrow> error + 'a dataset_scheme" where
  "Dataset_init convert get_raw_data symbols sector index sz data_callback self =
     (let self1 = self\<lparr>data := None, col_names := None\<rparr>;
          scope = init_scope symbols sector index sz data_callback
      in case load_name scope ''stock_callback'' of
           Inl e \<Rightarrow> Inl e
         | Inr (BoundCallback cb) \<Rightarrow>
             initialize_dataset convert get_raw_data symbols sector index sz cb self1
         | Inr other \<Rightarrow> Inl TypeError)"

text \<open>
  The test of \<open>_sanitize\<close> on one field,
  \<open>not isinstance(val, float) or (val is None) or not np.isfinite(val)\<close>,
  evaluated left to right: \<open>np.isfinite\<close> is reached by a float only.
\<close>

definition incomplete :: "pyval \<Rightarrow> error + bool" where
  "incomplete val =
     (if \<not> isinstance_float val then Inr True
      else if val = PyNone then Inr True
      else (case np_isfinite val of Inl e \<Rightarrow> Inl e | Inr b \<Rightarrow> Inr (\<not> b)))"

text \<open>The inner loop \<open>for val in ...\<close>, which sets \<open>delrow\<close> and never clears it.\<close>

fun for_val :: "pyval list \<Rightarrow> bool \<Rightarrow> error + bool" where
  "for_val [] delrow = Inr delrow"
| "for_val (val # vals) delrow =
     (case incomplete val of
        Inl e \<Rightarrow> Inl e
      | Inr c \<Rightarrow> for_val vals (if c then True else delrow))"

text \<open>
  The outer loop of \<open>Dataset._sanitize\<close> over \<open>range(len(self.data))\<close>: row \<open>i\<close> is
  scanned from its third field on, \<open>self.data[i][2:]\<close>.
\<close>

fun Dataset_for_i :: "pyval list list \<Rightarrow> nat list \<Rightarrow> nat list \<Rightarrow> error + nat list" where
  "Dataset_for_i d [] delrows = Inr delrows"
| "Dataset_for_i d (i # rest) delrows =
     (case getitem d i of
        Inl e \<Rightarrow> Inl e
      | Inr row \<Rightarrow>
          (case for_val (drop 2 row) False of
             Inl e \<Rightarrow> Inl e
           | Inr delrow \<Rightarrow>
               Dataset_for_i d rest (if delrow then delrows @ [i] else delrows)))"

text \<open>\<open>Dataset._sanitize\<close>; \<open>len(None)\<close> raises \<open>TypeError\<close>.\<close>

definition Dataset_sanitize :: "'a dataset_scheme \<Rightarrow> error + 'a dataset_scheme" where
  "Dataset_sanitize self =
     (case data self of
        None \<Rightarrow> Inl TypeError
      | Some d \<Rightarrow>
          (case Dataset_for_i (rows d) [0..<length (rows d)] [] of
             Inl e \<Rightarrow> Inl e
           | Inr delrows \<Rightarrow>
               (case np_delete (rows d) delrows of
                  Inl e \<Rightarrow> Inl e
                | Inr kept \<Rightarrow> Inr (self\<lparr>data := Some (d\<lparr>rows := kept\<rparr>)\<rparr>))))"

text \<open>\<open>__len__\<close> and \<open>__iter__\<close> of \<open>Dataset\<close>.\<close>

definition Dataset_len :: "'a dataset_scheme \<Rightarrow> error + nat" where
  "Dataset_len self =
     (case data self of None \<Rightarrow> Inl TypeError | Some d \<Rightarrow> Inr (length (rows d)))"

definition Dataset_iter :: "'a dataset_scheme \<Rightarrow> error + pyval list list" where
  "Dataset_iter self =
     (case data self of None \<Rightarrow> Inl TypeError | Some d \<Rightarrow> Inr (rows d))"

section \<open>class MLDataset\<close>

text \<open>
  The target is the one-dimensional array that \<open>target_function\<close> is documented to
  return; \<open>np.append\<close> without an axis flattens its arguments, so it stays
  one-dimensional.
\<close>

record mldataset = dataset +
  target :: "vector option"

type_synonym target_fn = "table \<Rightarrow> error + vector"

text \<open>Calling \<open>target_function\<close>; the default \<open>None\<close> is not callable.\<close>

definition call_target_function :: "target_fn option \<Rightarrow> table \<Rightarrow> error + vector" where
  "call_target_function target_function batch =
     (case target_function of None \<Rightarrow> Inl TypeError | Some tf \<Rightarrow> tf batch)"

text \<open>\<open>_generate_callback\<close>: the closure \<open>_function\<close> over \<open>self\<close>.\<close>

definition generate_callback ::
  "np_convert \<Rightarrow> target_fn option \<Rightarrow> ('a mldataset_scheme) callback" where
  "generate_callback convert target_function = (\<lambda>batch self.
     (case target self of
        None \<Rightarrow>
          (case call_target_function target_function batch of
             Inl e \<Rightarrow> Inl e
           | Inr new \<Rightarrow> Inr (self\<lparr>target := Some new\<rparr>))
      | Some old \<Rightarrow>
          (case call_target_function target_function batch of
             Inl e \<Rightarrow> Inl e
           | Inr new \<Rightarrow> Inr (self\<lparr>target := Some (np_append convert old new)\<rparr>))))"

text \<open>
  \<open>MLDataset.__init__\<close>.  The attribute \<open>generate_target_data\<close> holds the closure and
  is read nowhere else; it is a local of the model.
\<close>

definition MLDataset_init ::
  "np_convert \<Rightarrow> row_source \<Rightarrow> string list option \<Rightarrow> string list option \<Rightarrow>
   string list option \<Rightarrow> nat option \<Rightarrow> target_fn option \<Rightarrow>
   'a mldataset_scheme \<Rightarrow> error + 'a mldataset_scheme" where
  "MLDataset_init convert get_raw_data symbols sector index sz target_function self =
     (let self1 = self\<lparr>target := None\<rparr>;
          generate_target_data = generate_callback convert target_function
      in Dataset_init convert get_raw_data symbols sector index sz
           (Some generate_target_data) self1)"

text \<open>
  Reading the properties \<open>raw_data\<close>, \<open>training_data\<close> and \<open>target_data\<close>.
  \<open>astype(float)\<close> leaves a float as it is and converts every other object with
  Python's \<open>float\<close>, which is not part of \<open>dataset.py\<close> and is a parameter here.
\<close>

definition raw_data :: "'a dataset_scheme \<Rightarrow> table option" where
  "raw_data self = data self"

type_synonym float_conv = "pyval \<Rightarrow> error + pyfloat"

definition astype_float_val :: "float_conv \<Rightarrow> pyval \<Rightarrow> error + pyfloat" where
  "astype_float_val py_float v = (case v of PyFloat f \<Rightarrow> Inr f | other \<Rightarrow> py_float other)"

fun astype_float_row :: "float_conv \<Rightarrow> pyval list \<Rightarrow> error + pyfloat list" where
  "astype_float_row py_float [] = Inr []"
| "astype_float_row py_float (v # vs) =
     (case astype_float_val py_float v of
        Inl e \<Rightarrow> Inl e
      | Inr f \<Rightarrow>
          (case astype_float_row py_float vs of
             Inl e \<Rightarrow> Inl e
           | Inr fs \<Rightarrow> Inr (f # fs)))"

fun astype_float :: "float_conv \<Rightarrow> pyval list list \<Rightarrow> error + pyfloat list list" where
  "astype_float py_float [] = Inr []"
| "astype_float py_float (r # rs) =
     (case astype_float_row py_float r of
        Inl e \<Rightarrow> Inl e
      | Inr fr \<Rightarrow>
          (case astype_float py_float rs of
             Inl e \<Rightarrow> Inl e
           | Inr frs \<Rightarrow> Inr (fr # frs)))"

text \<open>
  \<open>training_data\<close> is \<open>np.array(self.data[:][2:]).astype(float)\<close>: \<open>self.data[:]\<close>
  is the whole array, and \<open>[2:]\<close> on it drops its first two rows.
\<close>

definition training_data :: "float_conv \<Rightarrow> 'a mldataset_scheme \<Rightarrow> error + pyfloat list list" where
  "training_data py_float self =
     (case data self of
        None \<Rightarrow> Inl TypeError
      | Some d \<Rightarrow> astype_float py_float (drop 2 (drop 0 (rows d))))"

definition target_data :: "float_conv \<Rightarrow> 'a mldataset_scheme \<Rightarrow> error + pyfloat list" where
  "target_data py_float self =
     (case target self of
        None \<Rightarrow> Inl AttributeError
      | Some t \<Rightarrow> astype_float_row py_float (items t))"

text \<open>
  The test of \<open>MLDataset._sanitize\<close> on the target,
  \<open>(self.target[i] is None) or (not np.isfinite(self.target[i]))\<close>: no
  \<open>isinstance\<close> guards \<open>np.isfinite\<close> here.
\<close>

definition target_incomplete :: "pyval \<Rightarrow> error + bool" where
  "target_incomplete tv =
     (if tv = PyNone then Inr True
      else (case np_isfinite tv of Inl e \<Rightarrow> Inl e | Inr b \<Rightarrow> Inr (\<not> b)))"

text \<open>\<open>self.target[i]\<close>; \<open>None\<close> is not subscriptable.\<close>

definition target_getitem :: "vector option \<Rightarrow> nat \<Rightarrow> error + pyval" where
  "target_getitem t i = (case t of None \<Rightarrow> Inl TypeError | Some arr \<Rightarrow> getitem (items arr) i)"

text \<open>
  The outer loop of \<open>MLDataset._sanitize\<close>: the whole row \<open>self.data[i]\<close> is scanned,
  then the target at \<open>i\<close>.
\<close>

fun MLDataset_for_i ::
  "pyval list list \<Rightarrow> vector option \<Rightarrow> nat list \<Rightarrow> nat list \<Rightarrow> error + nat list" where
  "MLDataset_for_i d t [] delrows = Inr delrows"
| "MLDataset_for_i d t (i # rest) delrows =
     (case getitem d i of
        Inl e \<Rightarrow> Inl e
      | Inr row \<Rightarrow>
          (case for_val row False of
             Inl e \<Rightarrow> Inl e
           | Inr delrow \<Rightarrow>
               (case target_getitem t i of
                  Inl e \<Rightarrow> Inl e
                | Inr tv \<Rightarrow>
                    (case target_incomplete tv of
                       Inl e \<Rightarrow> Inl e
                     | Inr c \<Rightarrow>
                         MLDataset_for_i d t rest
                           (if (if c then True else delrow) then delrows @ [i]
                            else delrows)))))"

text \<open>
  \<open>MLDataset._sanitize\<close>: one list \<open>delrows\<close>, given to \<open>np.delete\<close> for the table and
  again for the target.  \<open>np.delete\<close> on \<open>None\<close> raises.
\<close>

definition MLDataset_sanitize :: "'a mldataset_scheme \<Rightarrow> error + 'a mldataset_scheme" where
  "MLDataset_sanitize self =
     (case data self of
        None \<Rightarrow> Inl TypeError
      | Some d \<Rightarrow>
          (case MLDataset_for_i (rows d) (target self) [0..<length (rows d)] [] of
             Inl e \<Rightarrow> Inl e
           | Inr delrows \<Rightarrow>
               (case np_delete (rows d) delrows of
                  Inl e \<Rightarrow> Inl e
                | Inr kept \<Rightarrow>
                    (case target self of
                       None \<Rightarrow> Inl ValueError
                     | Some t \<Rightarrow>
                         (case np_delete (items t) delrows of
                            Inl e \<Rightarrow> Inl e
                          | Inr kept_target \<Rightarrow>
                              Inr (self\<lparr>data := Some (d\<lparr>rows := kept\<rparr>),
                                        target := Some (t\<lparr>items := kept_target\<rparr>)\<rparr>))))))"

text \<open>
  Arrays of one or two dimensions, for \<open>np.append(arr, values, axis=1)\<close>: it
  concatenates along the columns and raises \<open>ValueError\<close> unless both arrays are
  two-dimensional with the same number of rows.  \<open>.T\<close> transposes a two-dimensional
  array and returns a one-dimensional array as it is.
\<close>

datatype ndarray = Arr1 vector | Arr2 table

fun np_T :: "ndarray \<Rightarrow> ndarray" where
  "np_T (Arr1 v) = Arr1 v"
| "np_T (Arr2 d) =
     Arr2 \<lparr>dtype = dtype d,
           ncols = length (rows d),
           rows = map (\<lambda>j. map (\<lambda>r. r ! j) (rows d)) [0..<ncols d]\<rparr>"

fun np_append_axis1 :: "np_convert \<Rightarrow> ndarray \<Rightarrow> ndarray \<Rightarrow> error + table" where
  "np_append_axis1 convert (Arr2 a) (Arr2 v) =
     (if length (rows a) = length (rows v)
      then Inr \<lparr>dtype = result_type (dtype a) (dtype v),
                ncols = ncols a + ncols v,
                rows = map2 (@)
                  (map (astype_items convert (dtype a) (result_type (dtype a) (dtype v))) (rows a))
                  (map (astype_items convert (dtype v) (result_type (dtype a) (dtype v))) (rows v))\<rparr>
      else Inl ValueError)"
| "np_append_axis1 convert (Arr2 a) (Arr1 v) = Inl ValueError"
| "np_append_axis1 convert (Arr1 a) v = Inl ValueError"

text \<open>
  \<open>MLDataset.__iter__\<close> is \<open>iter(np.append(self.data, self.target.T, axis=1))\<close>; the
  result is the sequence of rows the iterator yields.
\<close>

definition MLDataset_iter ::
  "np_convert \<Rightarrow> 'a mldataset_scheme \<Rightarrow> error + pyval list list" where
  "MLDataset_iter convert self =
     (case target self of
        None \<Rightarrow> Inl AttributeError
      | Some t \<Rightarrow>
          (case data self of
             None \<Rightarrow> Inl ValueError
           | Some d \<Rightarrow>
               (case np_append_axis1 convert (Arr2 d) (np_T (Arr1 t)) of
                  Inl e \<Rightarrow> Inl e
                | Inr joined \<Rightarrow> Inr (rows joined))))"

section \<open>Predicates for stating the properties\<close>

text \<open>
  What the two loops compute, as predicates on a field, a row and a row index: a field
  passes the test of \<open>_sanitize\<close> exactly when it is a finite float; a target passes when
  it is a finite float or an integer that \<open>np.isfinite\<close> accepts, and the test raises on
  a string and on an integer that \<open>np.isfinite\<close> refuses.
\<close>

definition is_finite_float :: "pyval \<Rightarrow> bool" where
  "is_finite_float v = (case v of PyFloat (Finite x) \<Rightarrow> True | _ \<Rightarrow> False)"

fun target_ok :: "pyval \<Rightarrow> bool" where
  "target_ok (PyFloat (Finite x)) = True"
| "target_ok (PyFloat PosInf) = False"
| "target_ok (PyFloat NegInf) = False"
| "target_ok (PyFloat NaN) = False"
| "target_ok (PyInt i) = (- (2 ^ 63) \<le> i \<and> i < 2 ^ 64)"
| "target_ok (PyStr s) = False"
| "target_ok PyNone = False"

fun target_raises :: "pyval \<Rightarrow> bool" where
  "target_raises (PyFloat f) = False"
| "target_raises (PyInt i) = (i < - (2 ^ 63) \<or> 2 ^ 64 \<le> i)"
| "target_raises (PyStr s) = True"
| "target_raises PyNone = False"

definition ml_keeps :: "pyval list list \<Rightarrow> pyval list \<Rightarrow> nat \<Rightarrow> bool" where
  "ml_keeps d t i = (list_all is_finite_float (d ! i) \<and> target_ok (t ! i))"

definition ml_kept :: "pyval list list \<Rightarrow> pyval list \<Rightarrow> nat list" where
  "ml_kept d t = filter (ml_keeps d t) [0..<length d]"

text \<open>
  The alignment \<open>len(rawData) == len(targetData)\<close>: the table and the target are both
  there, since \<open>len\<close> raises on \<open>None\<close>, and the table has as many rows as the target
  has entries.
\<close>

definition aligned :: "'a mldataset_scheme \<Rightarrow> bool" where
  "aligned self =
     (case data self of
        None \<Rightarrow> False
      | Some d \<Rightarrow>
          (case target self of
             None \<Rightarrow> False
           | Some t \<Rightarrow> length (rows d) = length (items t)))"

text \<open>
  The reading of the specification's sentence on \<open>sanitize\<close> taken word by word: a field
  is invalid when it is non-finite, non-numeric or null, and an integer is none of these.
\<close>

fun spec_invalid :: "pyval \<Rightarrow> bool" where
  "spec_invalid (PyFloat (Finite x)) = False"
| "spec_invalid (PyFloat PosInf) = True"
| "spec_invalid (PyFloat NegInf) = True"
| "spec_invalid (PyFloat NaN) = True"
| "spec_invalid (PyInt i) = False"
| "spec_invalid (PyStr s) = True"
| "spec_invalid PyNone = True"

definition spec_sanitize_rows :: "pyval list list \<Rightarrow> pyval list list" where
  "spec_sanitize_rows rs = filter (\<lambda>r. \<not> list_ex spec_invalid (drop 2 r)) rs"

section \<open>Example data\<close>

definition quotes_A :: table where
  "quotes_A = \<lparr>dtype = Object, ncols = 4, rows =
     [[PyStr ''A'', PyStr ''2020-01-01'', PyFloat (Finite 1), PyFloat (Finite 2)],
      [PyStr ''A'', PyStr ''2020-01-02'', PyFloat (Finite 3), PyFloat NaN]]\<rparr>"

definition quotes_A_clean :: table where
  "quotes_A_clean = \<lparr>dtype = Object, ncols = 4, rows =
     [[PyStr ''A'', PyStr ''2020-01-01'', PyFloat (Finite 1), PyFloat (Finite 2)]]\<rparr>"

definition quotes_B :: table where
  "quotes_B = \<lparr>dtype = Object, ncols = 4, rows =
     [[PyStr ''B'', PyStr ''2020-01-01'', PyFloat (Finite 5), PyFloat (Finite 6)]]\<rparr>"

definition quotes_AB :: table where
  "quotes_AB = \<lparr>dtype = Object, ncols = 4, rows =
     [[PyStr ''A'', PyStr ''2020-01-01'', PyFloat (Finite 1), PyFloat (Finite 2)],
      [PyStr ''A'', PyStr ''2020-01-02'', PyFloat (Finite 3), PyFloat NaN],
      [PyStr ''B'', PyStr ''2020-01-01'', PyFloat (Finite 5), PyFloat (Finite 6)]]\<rparr>"

definition quote_names :: "string list" where
  "quote_names = [''symbol'', ''date'', ''open'', ''close'']"

definition quote_source :: row_source where
  "quote_source ticker =
     (if ticker = ''A'' then Inr (quotes_A, quote_names)
      else if ticker = ''B'' then Inr (quotes_B, quote_names)
      else Inl (SourceError ticker))"

definition volumes :: table where
  "volumes = \<lparr>dtype = Int64, ncols = 3, rows = [[PyInt 1, PyInt 2, PyInt 3]]\<rparr>"

definition floats_3x3 :: table where
  "floats_3x3 = \<lparr>dtype = Float64, ncols = 3, rows =
     [[PyFloat (Finite 1), PyFloat (Finite 2), PyFloat (Finite 3)],
      [PyFloat (Finite 4), PyFloat NaN, PyFloat (Finite 6)],
      [PyFloat (Finite 7), PyFloat (Finite 8), PyFloat (Finite 9)]]\<rparr>"

definition floats_1x3 :: table where
  "floats_1x3 = \<lparr>dtype = Float64, ncols = 3, rows =
     [[PyFloat (Finite 10), PyFloat (Finite 11), PyFloat (Finite 12)]]\<rparr>"

definition ml_example :: mldataset where
  "ml_example = \<lparr>data = Some floats_3x3, col_names = Some [''x'', ''y'', ''z''],
     target = Some \<lparr>vdtype = Object,
                    items = [PyFloat (Finite 10), PyFloat (Finite 20), PyNone]\<rparr>\<rparr>"

definition ml_example_clean :: mldataset where
  "ml_example_clean =
     \<lparr>data = Some \<lparr>dtype = Float64, ncols = 3,
                   rows = [[PyFloat (Finite 1), PyFloat (Finite 2), PyFloat (Finite 3)]]\<rparr>,
      col_names = Some [''x'', ''y'', ''z''],
      target = Some \<lparr>vdtype = Object, items = [PyFloat (Finite 10)]\<rparr>\<rparr>"

text \<open>
  A dataset with one more field, and a callback that notes there the batch it is given
  and the table the object holds at that moment.
\<close>

record probe = dataset +
  seen :: "(table \<times> table option) list"

definition note_call :: "probe callback" where
  "note_call batch self = Inr (self\<lparr>seen := seen self @ [(batch, data self)]\<rparr>)"

section \<open>Lemmas\<close>

lemmas example_defs = quotes_A_def quotes_A_clean_def quotes_B_def quotes_AB_def quote_names_def
  quote_source_def volumes_def floats_3x3_def floats_1x3_def ml_example_def
  ml_example_clean_def note_call_def

lemmas run_defs = Dataset_sanitize_def MLDataset_sanitize_def getitem_def target_getitem_def
  np_delete_def incomplete_def target_incomplete_def initialize_dataset_def np_vstack_def
  astype_items_def

subsection \<open>Name resolution\<close>

lemma load_stock_callback:
  "load_name (init_scope symbols sector index sz data_callback) ''stock_callback'' = Inl NameError"
  by (simp add: load_name_def init_scope_def)

subsection \<open>The marking loops\<close>

lemma incomplete_eq: "incomplete v = Inr (\<not> is_finite_float v)"
  by (cases v rule: np_isfinite.cases) (simp_all add: incomplete_def is_finite_float_def)

lemma for_val_eq: "for_val vals delrow = Inr (delrow \<or> \<not> list_all is_finite_float vals)"
  by (induction vals arbitrary: delrow) (auto simp: incomplete_eq)

lemma Dataset_for_i_eq:
  "list_all (\<lambda>i. i < length d) idxs \<Longrightarrow>
   Dataset_for_i d idxs delrows =
     Inr (delrows @ filter (\<lambda>i. \<not> list_all is_finite_float (drop 2 (d ! i))) idxs)"
  by (induction idxs arbitrary: delrows) (auto simp: getitem_def for_val_eq)

lemma target_incomplete_eq:
  "target_incomplete tv = (if target_raises tv then Inl TypeError else Inr (\<not> target_ok tv))"
  by (cases tv rule: np_isfinite.cases) (auto simp: target_incomplete_def)

lemma target_ok_not_raises: "target_ok tv \<Longrightarrow> \<not> target_raises tv"
  by (cases tv rule: np_isfinite.cases) auto

lemma MLDataset_for_i_eq:
  "list_all (\<lambda>i. i < length d \<and> i < length (items t) \<and> \<not> target_raises (items t ! i)) idxs \<Longrightarrow>
   MLDataset_for_i d (Some t) idxs delrows =
     Inr (delrows @ filter (\<lambda>i. \<not> ml_keeps d (items t) i) idxs)"
  by (induction idxs arbitrary: delrows)
     (auto simp: getitem_def target_getitem_def for_val_eq target_incomplete_eq ml_keeps_def)

lemma MLDataset_for_i_Inr:
  "MLDataset_for_i d topt idxs delrows = Inr r \<Longrightarrow> topt = Some t \<Longrightarrow>
   list_all (\<lambda>i. i < length d \<and> i < length (items t) \<and> \<not> target_raises (items t ! i)) idxs"
proof (induction idxs arbitrary: delrows)
  case Nil
  then show ?case by simp
next
  case (Cons i idxs)
  then show ?case
    by (auto simp: getitem_def target_getitem_def for_val_eq target_incomplete_eq
             split: if_splits sum.splits)
qed

subsection \<open>Deleting a list of indices\<close>

lemma filter_not_marked:
  "filter (\<lambda>i. i \<notin> set (filter Q xs)) xs = filter (\<lambda>i. \<not> Q i) xs"
  by (rule filter_cong) auto

lemma map_nth_filter:
  "map ((!) xs) (filter (\<lambda>i. P (xs ! i)) [0..<length xs]) = filter P xs"
proof -
  have "filter P xs = filter P (map ((!) xs) [0..<length xs])" by (simp add: map_nth)
  also have "\<dots> = map ((!) xs) (filter (P \<circ> (!) xs) [0..<length xs])" by (simp only: filter_map)
  finally show ?thesis by (simp add: comp_def)
qed

lemma np_delete_filter:
  "np_delete xs (filter Q [0..<length xs]) =
     Inr (map ((!) xs) (filter (\<lambda>i. \<not> Q i) [0..<length xs]))"
proof -
  have "list_all (\<lambda>i. i < length xs) (filter Q [0..<length xs])"
    by (simp add: list_all_iff)
  then show ?thesis
    unfolding np_delete_def by (simp only: filter_not_marked if_True)
qed

lemma np_delete_marked:
  "np_delete xs (filter (\<lambda>i. \<not> P (xs ! i)) [0..<length xs]) = Inr (filter P xs)"
  by (simp add: np_delete_filter map_nth_filter)

lemma np_delete_prefix:
  assumes "n \<le> length xs"
  shows "np_delete xs (filter Q [0..<n]) =
           Inr (map ((!) xs) (filter (\<lambda>i. \<not> Q i) [0..<n]) @ drop n xs)"
proof -
  have bound: "list_all (\<lambda>i. i < length xs) (filter Q [0..<n])"
    using assms by (auto simp: list_all_iff)
  have split: "[0..<length xs] = [0..<n] @ [n..<length xs]"
    using assms by (metis le_add_diff_inverse upt_add_eq_append zero_le)
  have lo: "filter (\<lambda>i. i \<notin> set (filter Q [0..<n])) [0..<n] = filter (\<lambda>i. \<not> Q i) [0..<n]"
    by (rule filter_not_marked)
  have hi: "filter (\<lambda>i. i \<notin> set (filter Q [0..<n])) [n..<length xs] = [n..<length xs]"
    by (rule filter_True) auto
  have "drop n xs = drop n (map ((!) xs) [0..<length xs])"
    by (simp only: map_nth)
  also have "\<dots> = map ((!) xs) [n..<length xs]"
    by (simp add: drop_map)
  finally have tl: "map ((!) xs) [n..<length xs] = drop n xs"
    by simp
  have "filter (\<lambda>i. i \<notin> set (filter Q [0..<n])) ([0..<n] @ [n..<length xs]) =
          filter (\<lambda>i. \<not> Q i) [0..<n] @ [n..<length xs]"
    by (simp only: filter_append lo hi)
  then have kept: "filter (\<lambda>i. i \<notin> set (filter Q [0..<n])) [0..<length xs] =
          filter (\<lambda>i. \<not> Q i) [0..<n] @ [n..<length xs]"
    using split by simp
  show ?thesis
    unfolding np_delete_def using bound
    by (simp only: if_True kept map_append tl)
qed

subsection \<open>What the two sanitizers return\<close>

lemma Dataset_sanitize_eq:
  "data self = Some d \<Longrightarrow>
   Dataset_sanitize self =
     Inr (self\<lparr>data := Some (d\<lparr>rows := filter (\<lambda>r. list_all is_finite_float (drop 2 r)) (rows d)\<rparr>)\<rparr>)"
proof -
  assume d: "data self = Some d"
  have m: "Dataset_for_i (rows d) [0..<length (rows d)] [] =
      Inr (filter (\<lambda>i. \<not> list_all is_finite_float (drop 2 (rows d ! i))) [0..<length (rows d)])"
    using Dataset_for_i_eq [of "rows d" "[0..<length (rows d)]" "[]"] by (simp add: list_all_iff)
  show ?thesis
    by (simp add: Dataset_sanitize_def d m
          np_delete_marked [of "rows d" "\<lambda>r. list_all is_finite_float (drop 2 r)"])
qed

lemma Dataset_sanitize_Inr:
  "Dataset_sanitize self = Inr s1 \<Longrightarrow> \<exists>d. data self = Some d"
  by (auto simp: Dataset_sanitize_def split: option.splits)

lemma Dataset_sanitize_twice:
  assumes ok: "Dataset_sanitize self = Inr s1"
  shows "Dataset_sanitize s1 = Inr s1"
proof -
  from Dataset_sanitize_Inr [OF ok] obtain d where d: "data self = Some d" by blast
  let ?ok = "\<lambda>r. list_all is_finite_float (drop 2 r)"
  have s1: "s1 = self\<lparr>data := Some (d\<lparr>rows := filter ?ok (rows d)\<rparr>)\<rparr>"
    using Dataset_sanitize_eq [OF d] ok by simp
  then have d1: "data s1 = Some (d\<lparr>rows := filter ?ok (rows d)\<rparr>)" by simp
  show ?thesis
    using Dataset_sanitize_eq [OF d1] by (simp add: s1)
qed

lemma MLDataset_sanitize_eq:
  assumes d: "data self = Some d" and t: "target self = Some t"
    and len: "length (rows d) \<le> length (items t)"
    and str: "list_all (\<lambda>i. \<not> target_raises (items t ! i)) [0..<length (rows d)]"
  shows "MLDataset_sanitize self =
           Inr (self\<lparr>data := Some (d\<lparr>rows := map ((!) (rows d)) (ml_kept (rows d) (items t))\<rparr>),
                     target := Some (t\<lparr>items := map ((!) (items t)) (ml_kept (rows d) (items t)) @
                                                  drop (length (rows d)) (items t)\<rparr>)\<rparr>)"
proof -
  let ?Q = "\<lambda>i. \<not> ml_keeps (rows d) (items t) i"
  have "list_all (\<lambda>i. i < length (rows d) \<and> i < length (items t) \<and> \<not> target_raises (items t ! i))
          [0..<length (rows d)]"
    using len str by (auto simp: list_all_iff)
  then have loop: "MLDataset_for_i (rows d) (Some t) [0..<length (rows d)] [] =
      Inr (filter ?Q [0..<length (rows d)])"
    using MLDataset_for_i_eq [of "rows d" t "[0..<length (rows d)]" "[]"] by simp
  have del_d: "np_delete (rows d) (filter ?Q [0..<length (rows d)]) =
      Inr (map ((!) (rows d)) (ml_kept (rows d) (items t)))"
    by (simp add: np_delete_filter ml_kept_def)
  have del_t: "np_delete (items t) (filter ?Q [0..<length (rows d)]) =
      Inr (map ((!) (items t)) (ml_kept (rows d) (items t)) @ drop (length (rows d)) (items t))"
    using np_delete_prefix [OF len, of ?Q] by (simp add: ml_kept_def)
  show ?thesis
    by (simp add: MLDataset_sanitize_def d t loop del_d del_t)
qed

lemma MLDataset_sanitize_Inr:
  assumes ok: "MLDataset_sanitize self = Inr s'"
  shows "\<exists>d t. data self = Some d \<and> target self = Some t \<and>
           length (rows d) \<le> length (items t) \<and>
           list_all (\<lambda>i. \<not> target_raises (items t ! i)) [0..<length (rows d)]"
proof -
  from ok obtain d where d: "data self = Some d"
    by (auto simp: MLDataset_sanitize_def split: option.splits)
  from ok d obtain r where
    r: "MLDataset_for_i (rows d) (target self) [0..<length (rows d)] [] = Inr r"
    by (auto simp: MLDataset_sanitize_def split: sum.splits)
  from ok d r obtain t where t: "target self = Some t"
    by (auto simp: MLDataset_sanitize_def split: sum.splits option.splits)
  have all: "list_all (\<lambda>i. i < length (rows d) \<and> i < length (items t) \<and>
                \<not> target_raises (items t ! i)) [0..<length (rows d)]"
    using MLDataset_for_i_Inr [OF r t] .
  have "length (rows d) \<le> length (items t)"
  proof (cases "rows d")
    case Nil
    then show ?thesis by simp
  next
    case (Cons a as)
    then have "length (rows d) - 1 \<in> set [0..<length (rows d)]" by simp
    with all have "length (rows d) - 1 < length (items t)" by (auto simp: list_all_iff)
    then show ?thesis by simp
  qed
  moreover have "list_all (\<lambda>i. \<not> target_raises (items t ! i)) [0..<length (rows d)]"
    using all by (auto simp: list_all_iff)
  ultimately show ?thesis using d t by blast
qed

lemma MLDataset_sanitize_result:
  assumes ok: "MLDataset_sanitize self = Inr s'"
  shows "\<exists>d t. data self = Some d \<and> target self = Some t \<and>
           length (rows d) \<le> length (items t) \<and>
           list_all (\<lambda>i. \<not> target_raises (items t ! i)) [0..<length (rows d)] \<and>
           s' = self\<lparr>data := Some (d\<lparr>rows := map ((!) (rows d)) (ml_kept (rows d) (items t))\<rparr>),
                     target := Some (t\<lparr>items := map ((!) (items t)) (ml_kept (rows d) (items t)) @
                                                  drop (length (rows d)) (items t)\<rparr>)\<rparr>"
proof -
  from MLDataset_sanitize_Inr [OF ok] obtain d t where
    d: "data self = Some d" and t: "target self = Some t" and
    len: "length (rows d) \<le> length (items t)" and
    str: "list_all (\<lambda>i. \<not> target_raises (items t ! i)) [0..<length (rows d)]"
    by blast
  from MLDataset_sanitize_eq [OF d t len str] ok d t len str show ?thesis by simp
qed

lemma MLDataset_sanitize_fixed:
  assumes d: "data self = Some d" and t: "target self = Some t"
    and keeps: "\<forall>i<length (rows d). i < length (items t) \<and> ml_keeps (rows d) (items t) i"
  shows "MLDataset_sanitize self = Inr self"
proof -
  have len: "length (rows d) \<le> length (items t)"
  proof (cases "rows d")
    case Nil
    then show ?thesis by simp
  next
    case (Cons a as)
    with keeps have "length (rows d) - 1 < length (items t)" by simp
    then show ?thesis by simp
  qed
  have str: "list_all (\<lambda>i. \<not> target_raises (items t ! i)) [0..<length (rows d)]"
    using keeps by (auto simp: list_all_iff ml_keeps_def dest: target_ok_not_raises)
  have kept: "ml_kept (rows d) (items t) = [0..<length (rows d)]"
    unfolding ml_kept_def using keeps by (intro filter_True) simp
  have tl: "map ((!) (items t)) [0..<length (rows d)] = take (length (rows d)) (items t)"
    using len by (metis map_nth take_map take_upt add_0)
  have eq: "self\<lparr>data := Some d, target := Some t\<rparr> = self"
    using d t by simp
  show ?thesis
    using MLDataset_sanitize_eq [OF d t len str] by (simp add: kept map_nth tl eq)
qed

lemma ml_kept_nth:
  assumes "i < length (ml_kept d t)"
  shows "ml_kept d t ! i < length d \<and> ml_keeps d t (ml_kept d t ! i)"
proof -
  have "ml_kept d t ! i \<in> set (ml_kept d t)" using assms by simp
  then show ?thesis by (simp add: ml_kept_def)
qed

lemma MLDataset_sanitize_twice:
  assumes ok: "MLDataset_sanitize self = Inr s1"
  shows "MLDataset_sanitize s1 = Inr s1"
proof -
  from MLDataset_sanitize_result [OF ok] obtain d t where
    d: "data self = Some d" and t: "target self = Some t" and
    len: "length (rows d) \<le> length (items t)" and
    s1: "s1 = self\<lparr>data := Some (d\<lparr>rows := map ((!) (rows d)) (ml_kept (rows d) (items t))\<rparr>),
                   target := Some (t\<lparr>items := map ((!) (items t)) (ml_kept (rows d) (items t)) @
                                                drop (length (rows d)) (items t)\<rparr>)\<rparr>"
    by blast
  let ?K = "ml_kept (rows d) (items t)"
  let ?d1 = "d\<lparr>rows := map ((!) (rows d)) ?K\<rparr>"
  let ?t1 = "t\<lparr>items := map ((!) (items t)) ?K @ drop (length (rows d)) (items t)\<rparr>"
  have d1: "data s1 = Some ?d1" and t1: "target s1 = Some ?t1"
    using s1 by simp_all
  have "\<forall>i<length (rows ?d1). i < length (items ?t1) \<and> ml_keeps (rows ?d1) (items ?t1) i"
  proof (intro allI impI)
    fix i assume "i < length (rows ?d1)"
    then have i: "i < length ?K" by simp
    from ml_kept_nth [OF i] have k: "ml_keeps (rows d) (items t) (?K ! i)" by simp
    have "rows ?d1 ! i = rows d ! (?K ! i)" using i by simp
    moreover have "items ?t1 ! i = items t ! (?K ! i)" using i by (simp add: nth_append)
    ultimately have "ml_keeps (rows ?d1) (items ?t1) i"
      using k by (simp add: ml_keeps_def)
    then show "i < length (items ?t1) \<and> ml_keeps (rows ?d1) (items ?t1) i" using i by simp
  qed
  from MLDataset_sanitize_fixed [OF d1 t1 this] show ?thesis .
qed


lemma MLDataset_iter_raises:
  "target self = Some t \<Longrightarrow> MLDataset_iter convert self = Inl ValueError"
  by (simp add: MLDataset_iter_def split: option.splits)

subsection \<open>The accumulation loop with the closure of _generate_callback\<close>

lemma np_append_length:
  "length (items (np_append convert a v)) = length (items a) + length (items v)"
  by (simp add: np_append_def astype_items_def)

lemma np_vstack_length:
  "np_vstack convert a b = Inr c \<Longrightarrow> length (rows c) = length (rows a) + length (rows b)"
  by (auto simp: np_vstack_def split: if_splits)

lemma generate_callback_Inr:
  assumes "generate_callback convert tf b self = Inr self1"
  shows "\<exists>new. call_target_function tf b = Inr new \<and>
           data self1 = data self \<and> col_names self1 = col_names self \<and>
           target self1 =
             Some (case target self of None \<Rightarrow> new | Some old \<Rightarrow> np_append convert old new)"
  using assms by (auto simp: generate_callback_def split: option.splits sum.splits)

text \<open>
  Called with the closure, as \<open>MLDataset.__init__\<close> means to, on an object that has
  neither table nor target or has them aligned, the loop of \<open>_initialize_dataset\<close>
  returns such an object again, and an aligned one once it has processed a symbol,
  provided the target function returns one entry per row of each batch.
\<close>

lemma for_ticker_aligned:
  assumes "for_ticker convert grd (Some (generate_callback convert tf)) tickers self = Inr s1"
    and "\<forall>ticker\<in>set tickers. \<forall>b names t. grd ticker = Inr (b, names) \<longrightarrow>
           call_target_function tf b = Inr t \<longrightarrow> length (items t) = length (rows b)"
    and "(data self = None \<and> target self = None) \<or> aligned self"
  shows "(tickers \<noteq> [] \<longrightarrow> aligned s1) \<and> ((data s1 = None \<and> target s1 = None) \<or> aligned s1)"
  using assms
proof (induction tickers arbitrary: self)
  case Nil
  then show ?case by simp
next
  case (Cons ticker tickers)
  from Cons.prems(1) obtain b names where g: "grd ticker = Inr (b, names)"
    by (auto split: sum.splits)
  from Cons.prems(1) g obtain self1 where f: "generate_callback convert tf b self = Inr self1"
    by (auto split: sum.splits)
  from generate_callback_Inr [OF f] obtain new where
    new: "call_target_function tf b = Inr new" and
    d1: "data self1 = data self" and
    t1: "target self1 =
           Some (case target self of None \<Rightarrow> new | Some old \<Rightarrow> np_append convert old new)"
    by blast
  have ln: "length (items new) = length (rows b)"
    using Cons.prems(2) g new by simp
  from Cons.prems(1) g f obtain self2 where
    rest: "for_ticker convert grd (Some (generate_callback convert tf)) tickers self2 = Inr s1"
    and t2: "target self2 = target self1"
    and d2: "(data self1 = None \<and> data self2 = Some b) \<or>
             (\<exists>old new. data self1 = Some old \<and> np_vstack convert old b = Inr new \<and>
                data self2 = Some new)"
    by (auto split: sum.splits option.splits)
  have al2: "aligned self2"
  proof (cases "data self")
    case None
    with Cons.prems(3) have "target self = None" by (auto simp: aligned_def)
    with None d1 d2 t1 t2 ln show ?thesis by (auto simp: aligned_def)
  next
    case (Some old)
    with Cons.prems(3) obtain told where
      told: "target self = Some told" and eq: "length (rows old) = length (items told)"
      by (auto simp: aligned_def split: option.splits)
    from Some d1 d2 obtain new2 where
      st: "np_vstack convert old b = Inr new2" and dn: "data self2 = Some new2"
      by auto
    from np_vstack_length [OF st] eq ln told t1 t2 dn show ?thesis
      by (simp add: aligned_def np_append_length)
  qed
  from Cons.IH [OF rest] Cons.prems(2) al2
  have IH: "(tickers \<noteq> [] \<longrightarrow> aligned s1) \<and> ((data s1 = None \<and> target s1 = None) \<or> aligned s1)"
    by simp
  show ?case
  proof (cases tickers)
    case Nil
    with rest have "s1 = self2" by simp
    with al2 show ?thesis by simp
  next
    case (Cons a list)
    with IH show ?thesis by simp
  qed
qed

section \<open>The claims\<close>

subsection \<open>C1: construction raises NameError\<close>

text \<open>
  Claim C1.  For every symbols list, sector, index, size and callback, \<open>Dataset.__init__\<close>
  raises \<open>NameError\<close>, and so does \<open>MLDataset.__init__\<close>, which delegates to it: the fifth
  argument of the call of \<open>_initialize_dataset\<close> is the name \<open>stock_callback\<close>, bound
  neither among the parameters nor in the module.  The row source is arbitrary in the
  statement, also one that fails on every ticker, so the error comes before any retrieval;
  no object is returned.
\<close>

theorem Dataset_init_NameError:
  "Dataset_init convert get_raw_data symbols sector index sz data_callback self = Inl NameError \<and>
   MLDataset_init convert get_raw_data symbols sector index sz target_function mself =
     Inl NameError"
  by (simp add: Dataset_init_def MLDataset_init_def load_stock_callback)

subsection \<open>C2: rows and targets stay aligned\<close>



subsection \<open>C3: which rows MLDataset._sanitize removes\<close>

text \<open>
  Claim C3 says that \<open>sanitize\<close> of an \<open>MLDataset\<close> never checks the two identifier
  columns and keeps a row whose only non-float values lie there.  The loop of
  \<open>MLDataset._sanitize\<close> scans \<open>self.data[i]\<close>, the whole row, where
  \<open>Dataset._sanitize\<close> scans \<open>self.data[i][2:]\<close>.  On a one-row table whose row holds
  two identifier strings and two finite floats, with a finite target, the row is removed
  and with it the target; \<open>Dataset._sanitize\<close> keeps the row of the same object.
\<close>

theorem mldataset_sanitize_scans_identifiers:
  "MLDataset_sanitize
     \<lparr>data = Some quotes_A_clean, col_names = Some quote_names,
      target = Some \<lparr>vdtype = Float64, items = [PyFloat (Finite 10)]\<rparr>\<rparr> =
   Inr \<lparr>data = Some \<lparr>dtype = Object, ncols = 4, rows = []\<rparr>, col_names = Some quote_names,
        target = Some \<lparr>vdtype = Float64, items = []\<rparr>\<rparr> \<and>
   Dataset_sanitize
     \<lparr>data = Some quotes_A_clean, col_names = Some quote_names,
      target = Some \<lparr>vdtype = Float64, items = [PyFloat (Finite 10)]\<rparr>\<rparr> =
   Inr \<lparr>data = Some quotes_A_clean, col_names = Some quote_names,
        target = Some \<lparr>vdtype = Float64, items = [PyFloat (Finite 10)]\<rparr>\<rparr>"
  by (simp add: run_defs quotes_A_clean_def)

subsection \<open>C4: training_data\<close>

text \<open>
  Claim C4 says that \<open>trainingData\<close> is all rows restricted to the columns from index 2
  on.  The property reads \<open>self.data[:][2:]\<close>, which slices rows twice: on a table of
  three rows and three columns of floats it returns the third row with all its columns,
  not the third column of every row.
\<close>

theorem training_data_drops_rows:
  "training_data py_float \<lparr>data = Some floats_3x3, col_names = None, target = None\<rparr> =
     Inr [[Finite 7, Finite 8, Finite 9]] \<and>
   map (drop 2) (rows floats_3x3) =
     [[PyFloat (Finite 3)], [PyFloat (Finite 6)], [PyFloat (Finite 9)]]"
  by (simp add: training_data_def floats_3x3_def astype_float_val_def)

subsection \<open>C5: which rows Dataset._sanitize removes\<close>

text \<open>
  Claim C5, as amended.  For every \<open>Dataset\<close> that holds a table, \<open>_sanitize\<close> returns
  and keeps, in their order, exactly the rows whose fields from index 2 on are all finite
  floats: a row is removed when one of these fields is not a float (\<open>None\<close>, a string,
  and also an integer) or is a float that is not finite; the fields 0 and 1 are never
  looked at.  The loop collects the indices of these rows of the original table in
  \<open>delrows\<close>, and one call of \<open>np.delete\<close> with that list removes them.
\<close>

theorem dataset_sanitize_rows:
  assumes "data self = Some d"
  shows "Dataset_sanitize self =
           Inr (self\<lparr>data := Some (d\<lparr>rows :=
                  filter (\<lambda>r. list_all is_finite_float (drop 2 r)) (rows d)\<rparr>)\<rparr>) \<and>
         (\<exists>delrows. Dataset_for_i (rows d) [0..<length (rows d)] [] = Inr delrows \<and>
            delrows = filter (\<lambda>i. \<not> list_all is_finite_float (drop 2 (rows d ! i)))
                        [0..<length (rows d)] \<and>
            np_delete (rows d) delrows =
              Inr (filter (\<lambda>r. list_all is_finite_float (drop 2 r)) (rows d)))"
proof -
  have "Dataset_for_i (rows d) [0..<length (rows d)] [] =
      Inr (filter (\<lambda>i. \<not> list_all is_finite_float (drop 2 (rows d ! i))) [0..<length (rows d)])"
    using Dataset_for_i_eq [of "rows d" "[0..<length (rows d)]" "[]"] by (simp add: list_all_iff)
  moreover have "np_delete (rows d)
       (filter (\<lambda>i. \<not> list_all is_finite_float (drop 2 (rows d ! i))) [0..<length (rows d)]) =
     Inr (filter (\<lambda>r. list_all is_finite_float (drop 2 r)) (rows d))"
    by (rule np_delete_marked [of "rows d" "\<lambda>r. list_all is_finite_float (drop 2 r)"])
  ultimately show ?thesis
    using Dataset_sanitize_eq [OF assms] by simp
qed

theorem dataset_sanitize_rows_witness:
  "Dataset_sanitize \<lparr>data = Some quotes_A, col_names = Some quote_names\<rparr> =
     Inr \<lparr>data = Some quotes_A_clean, col_names = Some quote_names\<rparr>"
  using dataset_sanitize_rows [of "\<lparr>data = Some quotes_A, col_names = Some quote_names\<rparr>" quotes_A]
  by (simp add: quotes_A_def quotes_A_clean_def is_finite_float_def)

text \<open>
  The claim as written fails on an integer feature.  The one row of the table below holds
  integers only: no field from index 2 on is non-finite, non-numeric or null, so the
  claim keeps the row, and the code removes it because \<open>isinstance(3, float)\<close> is false.
\<close>

theorem dataset_sanitize_integer_counterexample:
  "Dataset_sanitize \<lparr>data = Some volumes, col_names = Some [''a'', ''b'', ''volume'']\<rparr> =
     Inr \<lparr>data = Some \<lparr>dtype = Int64, ncols = 3, rows = []\<rparr>,
          col_names = Some [''a'', ''b'', ''volume'']\<rparr> \<and>
   spec_sanitize_rows (rows volumes) = [[PyInt 1, PyInt 2, PyInt 3]]"
  by (simp add: run_defs volumes_def spec_sanitize_rows_def)

subsection \<open>C6: iterating an MLDataset\<close>

text \<open>
  Claim C6 says that iterating yields one element per row, the features with the target
  appended.  \<open>__iter__\<close> calls \<open>np.append(self.data, self.target.T, axis=1)\<close>; the
  target is one-dimensional, \<open>.T\<close> leaves it so, and appending a one-dimensional array
  to a two-dimensional one along axis 1 raises \<open>ValueError\<close>.  On one row of three floats
  with one target nothing is yielded.
\<close>

theorem mldataset_iter_ValueError:
  "MLDataset_iter convert \<lparr>data = Some floats_1x3, col_names = None,
      target = Some \<lparr>vdtype = Float64, items = [PyFloat (Finite 10)]\<rparr>\<rparr> = Inl ValueError"
  by (simp add: MLDataset_iter_def)

subsection \<open>C7: accumulation order\<close>

text \<open>
  Claim C7 says that construction with the symbols \<open>A\<close> and \<open>B\<close> produces a table,
  the rows of the batch of \<open>A\<close> followed by those of \<open>B\<close>, with the column names of
  the first batch.  \<open>Dataset.__init__\<close> with these symbols raises \<open>NameError\<close> on the
  name \<open>stock_callback\<close> and produces no table.  The loop it was about to call, entered
  with the same arguments and the callback parameter, does build that table.
\<close>

theorem construction_builds_no_table:
  "Dataset_init convert quote_source (Some [''A'', ''B'']) None None None None
     \<lparr>data = None, col_names = None\<rparr> = Inl NameError \<and>
   initialize_dataset convert quote_source (Some [''A'', ''B'']) None None None None
     \<lparr>data = None, col_names = None\<rparr> =
   Inr \<lparr>data = Some quotes_AB, col_names = Some quote_names\<rparr>"
  by (simp add: Dataset_init_def load_stock_callback run_defs quote_source_def
        quotes_A_def quotes_B_def quotes_AB_def)

subsection \<open>C8: one callback invocation per symbol\<close>

text \<open>
  Claim C8 says that construction invokes the callback once per symbol, on that symbol's
  batch alone, before the batch is appended.  \<open>Dataset.__init__\<close> with the symbols \<open>A\<close>
  and \<open>B\<close> and a callback that notes its calls raises \<open>NameError\<close> on the name
  \<open>stock_callback\<close> before the loop is entered: the callback is invoked zero times.
  The loop it was about to call, entered with the same arguments and the callback
  parameter, calls it twice: on the batch of \<open>A\<close> while the object holds no table, then
  on the batch of \<open>B\<close> while the table is the batch of \<open>A\<close>.
\<close>

theorem construction_calls_no_callback:
  "Dataset_init convert quote_source (Some [''A'', ''B'']) None None None (Some note_call)
     \<lparr>data = None, col_names = None, seen = []\<rparr> = Inl NameError \<and>
   initialize_dataset convert quote_source (Some [''A'', ''B'']) None None None (Some note_call)
     \<lparr>data = None, col_names = None, seen = []\<rparr> =
   Inr \<lparr>data = Some quotes_AB, col_names = Some quote_names,
        seen = [(quotes_A, None), (quotes_B, Some quotes_A)]\<rparr>"
  by (simp add: Dataset_init_def load_stock_callback run_defs quote_source_def note_call_def
        quotes_A_def quotes_B_def quotes_AB_def)

subsection \<open>C9: sanitizing twice\<close>

text \<open>
  Claim C9.  When \<open>_sanitize\<close> returns, for a \<open>Dataset\<close> or for an \<open>MLDataset\<close>, a
  second call on the result returns that same result: no further row, and no further
  target, is removed.  The first call returns for every \<open>Dataset\<close> that holds a table,
  and for every \<open>MLDataset\<close> whose table and target have the same length and whose
  target holds no entry on which \<open>np.isfinite\<close> raises, that is no string and no
  integer beyond 64 bits.
\<close>

theorem sanitize_idempotent:
  "(\<forall>s1. Dataset_sanitize self = Inr s1 \<longrightarrow> Dataset_sanitize s1 = Inr s1) \<and>
   (\<forall>m1. MLDataset_sanitize mself = Inr m1 \<longrightarrow> MLDataset_sanitize m1 = Inr m1) \<and>
   (\<forall>d. data self = Some d \<longrightarrow> (\<exists>s1. Dataset_sanitize self = Inr s1)) \<and>
   (\<forall>d t. data mself = Some d \<and> target mself = Some t \<and>
          length (rows d) = length (items t) \<and>
          list_all (\<lambda>v. \<not> target_raises v) (items t) \<longrightarrow>
          (\<exists>m1. MLDataset_sanitize mself = Inr m1))"
proof (intro conjI allI impI)
  fix s1 assume "Dataset_sanitize self = Inr s1"
  then show "Dataset_sanitize s1 = Inr s1" by (rule Dataset_sanitize_twice)
next
  fix m1 assume "MLDataset_sanitize mself = Inr m1"
  then show "MLDataset_sanitize m1 = Inr m1" by (rule MLDataset_sanitize_twice)
next
  fix d assume "data self = Some d"
  from Dataset_sanitize_eq [OF this] show "\<exists>s1. Dataset_sanitize self = Inr s1" by blast
next
  fix d t
  assume a: "data mself = Some d \<and> target mself = Some t \<and>
          length (rows d) = length (items t) \<and>
          list_all (\<lambda>v. \<not> target_raises v) (items t)"
  then have "list_all (\<lambda>i. \<not> target_raises (items t ! i)) [0..<length (rows d)]"
    by (auto simp: list_all_iff)
  with a MLDataset_sanitize_eq [of mself d t] show "\<exists>m1. MLDataset_sanitize mself = Inr m1"
    by auto
qed

theorem sanitize_idempotent_witness:
  "Dataset_sanitize \<lparr>data = Some quotes_A, col_names = Some quote_names\<rparr> =
     Inr \<lparr>data = Some quotes_A_clean, col_names = Some quote_names\<rparr> \<and>
   Dataset_sanitize \<lparr>data = Some quotes_A_clean, col_names = Some quote_names\<rparr> =
     Inr \<lparr>data = Some quotes_A_clean, col_names = Some quote_names\<rparr> \<and>
   MLDataset_sanitize ml_example = Inr ml_example_clean \<and>
   MLDataset_sanitize ml_example_clean = Inr ml_example_clean"
proof -
  have one: "Dataset_sanitize \<lparr>data = Some quotes_A, col_names = Some quote_names\<rparr> =
     Inr \<lparr>data = Some quotes_A_clean, col_names = Some quote_names\<rparr>"
    by (simp add: run_defs quotes_A_def quotes_A_clean_def)
  have two: "MLDataset_sanitize ml_example = Inr ml_example_clean"
    by (simp add: run_defs ml_example_def ml_example_clean_def floats_3x3_def)
  from sanitize_idempotent
         [of "\<lparr>data = Some quotes_A, col_names = Some quote_names\<rparr>" ml_example] one two
  show ?thesis by simp
qed

subsection \<open>C10: sanitizing leaves the column names\<close>

text \<open>
  Claim C10.  A \<open>_sanitize\<close> that returns has changed nothing but the table of a
  \<open>Dataset\<close>, and nothing but the table and the target of an \<open>MLDataset\<close>: the column
  names, and every other field, are those of the object before the call.
\<close>

theorem sanitize_keeps_col_names:
  "(\<forall>s1. Dataset_sanitize self = Inr s1 \<longrightarrow>
      col_names s1 = col_names self \<and> (\<exists>d1. s1 = self\<lparr>data := d1\<rparr>)) \<and>
   (\<forall>m1. MLDataset_sanitize mself = Inr m1 \<longrightarrow>
      col_names m1 = col_names mself \<and> (\<exists>d1 t1. m1 = mself\<lparr>data := d1, target := t1\<rparr>))"
proof (intro conjI allI impI)
  fix s1 assume ok: "Dataset_sanitize self = Inr s1"
  from Dataset_sanitize_Inr [OF ok] obtain d where d: "data self = Some d" by blast
  from Dataset_sanitize_eq [OF d] ok
  have s1: "s1 = self\<lparr>data := Some (d\<lparr>rows := filter (\<lambda>r. list_all is_finite_float (drop 2 r)) (rows d)\<rparr>)\<rparr>"
    by simp
  show "col_names s1 = col_names self" by (simp add: s1)
  show "\<exists>d1. s1 = self\<lparr>data := d1\<rparr>" using s1 by blast
next
  fix m1 assume ok: "MLDataset_sanitize mself = Inr m1"
  from MLDataset_sanitize_result [OF ok] obtain d t where
    m1: "m1 = mself\<lparr>data := Some (d\<lparr>rows := map ((!) (rows d)) (ml_kept (rows d) (items t))\<rparr>),
                   target := Some (t\<lparr>items := map ((!) (items t)) (ml_kept (rows d) (items t)) @
                                                drop (length (rows d)) (items t)\<rparr>)\<rparr>"
    by blast
  show "col_names m1 = col_names mself" by (simp add: m1)
  show "\<exists>d1 t1. m1 = mself\<lparr>data := d1, target := t1\<rparr>" using m1 by blast
qed

theorem sanitize_keeps_col_names_witness:
  "Dataset_sanitize \<lparr>data = Some quotes_A, col_names = Some quote_names\<rparr> =
     Inr \<lparr>data = Some quotes_A_clean, col_names = Some quote_names\<rparr> \<and>
   col_names \<lparr>data = Some quotes_A_clean, col_names = Some quote_names\<rparr> = Some quote_names \<and>
   MLDataset_sanitize ml_example = Inr ml_example_clean \<and>
   col_names ml_example_clean = col_names ml_example"
proof -
  have one: "Dataset_sanitize \<lparr>data = Some quotes_A, col_names = Some quote_names\<rparr> =
     Inr \<lparr>data = Some quotes_A_clean, col_names = Some quote_names\<rparr>"
    by (simp add: run_defs quotes_A_def quotes_A_clean_def)
  have two: "MLDataset_sanitize ml_example = Inr ml_example_clean"
    by (simp add: run_defs ml_example_def ml_example_clean_def floats_3x3_def)
  from sanitize_keeps_col_names
         [of "\<lparr>data = Some quotes_A, col_names = Some quote_names\<rparr>" ml_example] one two
  show ?thesis by simp
qed

end
